theory Spec2Isabelle
  imports Complex_Main
begin

section \<open>Data model of the site (types.ts)\<close>

text \<open>
  The string-literal unions of \<^verbatim>\<open>types.ts\<close> are datatypes. Two unions share the literal
  \<^verbatim>\<open>"UNKNOWN"\<close>; the constructor of \<^verbatim>\<open>TrendDirection\<close> carries a suffix.
  A JavaScript \<^verbatim>\<open>number\<close> is the real value of a finite double; \<^verbatim>\<open>NaN\<close> and results
  beyond the finite range are not modelled. Comparisons of doubles are exact. The
  arithmetic of the trend, of the window average and of the distance ratio is the rounded
  arithmetic of doubles given below; the thresholds of the flood status, the conversion of
  one poll and the geometry of the route are computed over the reals.
  \<^verbatim>\<open>T | null\<close> is \<open>T option\<close>.
\<close>

datatype RouteStatus = ROUTING_THROUGH | ROUTING_AROUND | NO_ROUTE | ERROR

datatype FloodStatus = FLOODED | NEAR_FLOOD | RECEDING | CLEAR | UNKNOWN

datatype TrendDirection = RISING | FALLING | STEADY | UNKNOWN_TREND

text \<open>
  \<^verbatim>\<open>TrafficResponse\<close> is the decoded JSON of the traffic worker. Its \<^verbatim>\<open>status\<close> stays the
  string that arrives. The worker leaves \<^verbatim>\<open>readingsWithLiveData\<close> out of the window of an
  empty result, so that the field reads \<^verbatim>\<open>undefined\<close> there: \<open>None\<close>.
\<close>

record TrafficWindow =
  description :: string
  since :: "string option"
  readings :: real
  readingsWithLiveData :: "real option"

record TrafficResponse =
  timestamp :: string
  location :: string
  status :: string
  window :: TrafficWindow
  averageSpeedMph :: "real option"
  mostRecentLiveSpeedMph :: "real option"
  mostRecentLiveTimestamp :: "string option"

record EAReading =
  dateTime :: string
  "value" :: real

text \<open>\<^verbatim>\<open>THRESHOLDS\<close> (Sandhurst gauge, metres).\<close>

definition ROAD_FLOOD :: real where "ROAD_FLOOD = 3.98"

section \<open>The road-assessment reconciler (logic.ts)\<close>

datatype Confidence = HIGH | MEDIUM | LOW

record RoadAssessment =
  isOpen :: "bool option"
  confidence :: Confidence
  reason :: string

text \<open>
  \<^verbatim>\<open>trafficSinceFlood && trafficSinceFlood.window.readingsWithLiveData > 0\<close> and its
  sibling with \<^verbatim>\<open>=== 0\<close>: \<^verbatim>\<open>null\<close> is falsy, and \<^verbatim>\<open>undefined\<close> is neither
  greater than nor strictly equal to zero.
\<close>

definition liveDataPositive :: "TrafficResponse option \<Rightarrow> bool" where
  "liveDataPositive t =
     (case t of
        None \<Rightarrow> False
      | Some r \<Rightarrow> (case readingsWithLiveData (window r) of None \<Rightarrow> False | Some n \<Rightarrow> n > 0))"

definition liveDataZero :: "TrafficResponse option \<Rightarrow> bool" where
  "liveDataZero t =
     (case t of
        None \<Rightarrow> False
      | Some r \<Rightarrow> (case readingsWithLiveData (window r) of None \<Rightarrow> False | Some n \<Rightarrow> n = 0))"

text \<open>The em dash of one reason string is written as its three UTF-8 bytes.\<close>

definition assessRoadStatus ::
  "FloodStatus \<Rightarrow> RouteStatus option \<Rightarrow> TrafficResponse option \<Rightarrow> TrafficResponse option
     \<Rightarrow> RoadAssessment" where
  "assessRoadStatus floodStatus routeStatus trafficData trafficSinceFlood =
     (if floodStatus = FLOODED then
        \<lparr>isOpen = Some False, confidence = HIGH,
         reason = ''Water levels are above the road flooding threshold.''\<rparr>
      else if floodStatus = NEAR_FLOOD then
        (if routeStatus = Some ROUTING_AROUND \<or> routeStatus = Some NO_ROUTE then
           \<lparr>isOpen = Some False, confidence = MEDIUM,
            reason = ''Water levels are near the road flooding threshold and the route planner is directing traffic around this road. The road may be impassable. Note that the route planner can sometimes be wrong.''\<rparr>
         else
           \<lparr>isOpen = Some True, confidence = MEDIUM,
            reason = ''Water levels are near the road flooding threshold but the road is likely still passable. Conditions may deteriorate ''
              @ [CHR 0xE2, CHR 0x80, CHR 0x94] @ '' drive with caution.''\<rparr>)
      else if floodStatus = RECEDING then
        (if liveDataPositive trafficSinceFlood then
           \<lparr>isOpen = Some True, confidence = HIGH,
            reason = ''Cars have been detected on the road since water levels dropped. The road appears to be open.''\<rparr>
         else if routeStatus = Some ROUTING_THROUGH then
           (if liveDataZero trafficSinceFlood then
              \<lparr>isOpen = Some True, confidence = MEDIUM,
               reason = ''The route planner is directing traffic through this road, but no cars have been detected yet. The traffic sensor can be unreliable, so the road is probably open.''\<rparr>
            else
              \<lparr>isOpen = Some True, confidence = MEDIUM,
               reason = ''The route planner is directing traffic through this road. However, the route planner occasionally shows the road as open prematurely.''\<rparr>)
         else if routeStatus = Some ROUTING_AROUND \<or> routeStatus = Some NO_ROUTE then
           \<lparr>isOpen = Some False, confidence = MEDIUM,
            reason = ''Water levels have dropped, but the route planner is still directing traffic around this road. The road may still be closed or obstructed. Note that the route planner sometimes shows the road as closed when it has reopened.''\<rparr>
         else
           \<lparr>isOpen = None, confidence = LOW,
            reason = ''Water levels have dropped below the flood threshold recently. We can't confirm whether the road has reopened yet.''\<rparr>)
      else if routeStatus = Some ROUTING_THROUGH then
        \<lparr>isOpen = Some True, confidence = HIGH,
         reason = ''Water levels are normal and traffic is routing through.''\<rparr>
      else if routeStatus = Some ROUTING_AROUND then
        \<lparr>isOpen = Some False, confidence = MEDIUM,
         reason = ''Water levels are normal, but the route planner is directing traffic around this road. There may be a closure for other reasons. The route planner can sometimes be wrong.''\<rparr>
      else
        \<lparr>isOpen = Some True, confidence = LOW,
         reason = ''Water levels are within normal range.''\<rparr>)"

section \<open>Double-precision arithmetic\<close>

text \<open>
  A finite double is an integer of at most 53 bits times a power of two. \<open>double x\<close> is the
  double nearest to the real \<open>x\<close>, a tie going to the even integer: the value of a decimal
  literal and of a decoded JSON number, and the rounding of every arithmetic operation.
  The last place of a number in \<open>[2^k, 2^(k+1))\<close> is \<open>2^(k-52)\<close>, and never below
  \<open>2^(-1074)\<close>.
\<close>

definition pow2 :: "int \<Rightarrow> real" where
  "pow2 e = (if 0 \<le> e then 2 ^ nat e else 1 / 2 ^ nat (- e))"

definition roundTiesToEven :: "real \<Rightarrow> int" where
  "roundTiesToEven y =
     (let f = \<lfloor>y\<rfloor>; d = y - of_int f
      in if d < 1 / 2 then f else if 1 / 2 < d then f + 1 else if even f then f else f + 1)"

definition ulpExponent :: "real \<Rightarrow> int" where
  "ulpExponent x = max (\<lfloor>log 2 \<bar>x\<bar>\<rfloor> - 52) (- 1074)"

definition double :: "real \<Rightarrow> real" where
  "double x =
     (if x = 0 then 0
      else of_int (roundTiesToEven (x / pow2 (ulpExponent x))) * pow2 (ulpExponent x))"

text \<open>The operators \<^verbatim>\<open>+\<close>, \<^verbatim>\<open>-\<close>, \<^verbatim>\<open>*\<close> and \<^verbatim>\<open>/\<close> on doubles: the exact result, rounded.\<close>

definition fadd :: "real \<Rightarrow> real \<Rightarrow> real" where
  "fadd a b = double (a + b)"

definition fsub :: "real \<Rightarrow> real \<Rightarrow> real" where
  "fsub a b = double (a - b)"

definition fmul :: "real \<Rightarrow> real \<Rightarrow> real" where
  "fmul a b = double (a * b)"

definition fdiv :: "real \<Rightarrow> real \<Rightarrow> real" where
  "fdiv a b = double (a / b)"

section \<open>Trend and flood-status classifiers (logic.ts)\<close>

text \<open>\<^verbatim>\<open>readings.slice(-n)\<close>: the last \<open>n\<close> elements, or the whole array when it is shorter.\<close>

definition slice_last :: "nat \<Rightarrow> 'a list \<Rightarrow> 'a list" where
  "slice_last n xs = (if length xs \<le> n then xs else drop (length xs - n) xs)"

definition determineTrend :: "EAReading list \<Rightarrow> TrendDirection" where
  "determineTrend rs =
     (if length rs < 4 then UNKNOWN_TREND
      else
        let recent = slice_last 8 rs in
        if length recent < 2 then UNKNOWN_TREND
        else
          let first = value (recent ! 0);
              last = value (recent ! (length recent - 1));
              diff = fsub last first
          in if \<bar>diff\<bar> < double 0.02 then STEADY
             else if diff > 0 then RISING else FALLING)"




text \<open>
  The backward loop of \<^verbatim>\<open>findTimeWaterDroppedBelowFlood\<close>: \<open>scanBackward rs (Suc i)\<close> is the
  iteration at index \<open>i\<close>, and \<open>scanBackward rs 0\<close> the exit of the loop.
\<close>

fun scanBackward :: "EAReading list \<Rightarrow> nat \<Rightarrow> string option" where
  "scanBackward rs 0 = None"
| "scanBackward rs (Suc i) =
     (if value (rs ! i) \<ge> ROAD_FLOOD then
        (if i + 1 < length rs then Some (dateTime (rs ! (i + 1)))
         else Some (dateTime (rs ! i)))
      else scanBackward rs i)"

definition findTimeWaterDroppedBelowFlood :: "EAReading list \<Rightarrow> string option" where
  "findTimeWaterDroppedBelowFlood rs = scanBackward rs (length rs)"

section \<open>Route check worker\<close>

text \<open>
  The worker throws an \<^verbatim>\<open>Error\<close> when its key is not configured and when the upstream
  answer is not \<^verbatim>\<open>ok\<close> (with the status and the body in the message). The answer of
  \<^verbatim>\<open>fetch\<close> is an argument of the model.
\<close>

datatype WorkerError = NotConfigured | ApiError nat string

datatype 'a FetchResult = HttpFailure nat string | HttpOk 'a

record RoutePoint =
  latitude :: real
  longitude :: real

record LatLng =
  lat :: real
  lng :: real

record RouteSummary =
  lengthInMeters :: real
  travelTimeInSeconds :: real
  trafficDelayInSeconds :: real
  departureTime :: string
  arrivalTime :: string

record RouteLeg =
  points :: "RoutePoint list"

record TomTomRoute =
  summary :: RouteSummary
  legs :: "RouteLeg list"

text \<open>\<^verbatim>\<open>raw.routes?.length\<close>: the array may be missing, \<open>None\<close>.\<close>

record TomTomRoutingResponse =
  formatVersion :: string
  routes :: "TomTomRoute list option"

definition A417_MIDPOINT :: LatLng where
  "A417_MIDPOINT = \<lparr>lat = 51.8840967853921, lng = -2.2672132659056956\<rparr>"

definition DIRECT_DISTANCE_M :: real where "DIRECT_DISTANCE_M = 1800"
definition DETOUR_THRESHOLD_MULTIPLIER :: real where "DETOUR_THRESHOLD_MULTIPLIER = 2.5"
definition MIDPOINT_PROXIMITY_M :: real where "MIDPOINT_PROXIMITY_M = 150"

text \<open>
  The running minimum of \<^verbatim>\<open>findClosestDistance\<close> starts at \<^verbatim>\<open>Infinity\<close>: a number that
  may be infinite, with the comparison and the rounding JavaScript gives it.
  \<^verbatim>\<open>Math.round\<close> rounds to the nearest integer, a half upwards; its result is exact.
\<close>

datatype jsnum = Finite real | Infinity

fun num_less :: "jsnum \<Rightarrow> jsnum \<Rightarrow> bool" where
  "num_less (Finite a) (Finite b) = (a < b)"
| "num_less (Finite a) Infinity = True"
| "num_less Infinity b = False"

definition math_round :: "real \<Rightarrow> real" where
  "math_round x = of_int \<lfloor>x + 1 / 2\<rfloor>"

fun num_round :: "jsnum \<Rightarrow> jsnum" where
  "num_round (Finite a) = Finite (math_round a)"
| "num_round Infinity = Infinity"

text \<open>
  \<^verbatim>\<open>Math.atan2(y, x)\<close>, the angle of the point \<open>(x, y)\<close>. The language leaves the rounding
  of \<^verbatim>\<open>Math.sin\<close>, \<^verbatim>\<open>Math.cos\<close>, \<^verbatim>\<open>Math.sqrt\<close> and \<^verbatim>\<open>Math.atan2\<close> to the platform:
  \<^verbatim>\<open>haversineM\<close> is computed over the reals.
\<close>

definition atan2 :: "real \<Rightarrow> real \<Rightarrow> real" where
  "atan2 y x =
     (if x > 0 then arctan (y / x)
      else if x < 0 then (if y \<ge> 0 then arctan (y / x) + pi else arctan (y / x) - pi)
      else if y > 0 then pi / 2
      else if y < 0 then - pi / 2
      else 0)"

definition toRad :: "real \<Rightarrow> real" where
  "toRad d = (d * pi) / 180"

definition haversineM :: "real \<Rightarrow> real \<Rightarrow> real \<Rightarrow> real \<Rightarrow> real" where
  "haversineM lat1 lng1 lat2 lng2 =
     (let R = 6371000;
          dLat = toRad (lat2 - lat1);
          dLng = toRad (lng2 - lng1);
          a = (sin (dLat / 2))\<^sup>2
              + cos (toRad lat1) * cos (toRad lat2) * (sin (dLng / 2))\<^sup>2
      in R * 2 * atan2 (sqrt a) (sqrt (1 - a)))"

fun closestLoop :: "jsnum \<Rightarrow> RoutePoint list \<Rightarrow> LatLng \<Rightarrow> jsnum" where
  "closestLoop minDist [] target = minDist"
| "closestLoop minDist (point # rest) target =
     (let dist = haversineM (latitude point) (longitude point) (lat target) (lng target)
      in closestLoop (if num_less (Finite dist) minDist then Finite dist else minDist) rest target)"

definition findClosestDistance :: "RoutePoint list \<Rightarrow> LatLng \<Rightarrow> jsnum" where
  "findClosestDistance routePoints target = closestLoop Infinity routePoints target"

text \<open>
  The result of \<^verbatim>\<open>checkRoute\<close>, without its \<^verbatim>\<open>timestamp\<close>, \<^verbatim>\<open>location\<close> and
  \<^verbatim>\<open>geometry\<close>, which no decision reads.
\<close>

record RouteInfo =
  distanceM :: real
  durationSec :: real
  trafficDelaySec :: real
  distanceRatio :: real
  closestToMidpointM :: jsnum

record RouteCheck =
  routeCheckStatus :: RouteStatus
  routeCheckInfo :: "RouteInfo option"

definition checkRoute :: "string \<Rightarrow> TomTomRoutingResponse FetchResult \<Rightarrow> WorkerError + RouteCheck" where
  "checkRoute apiKey res =
     (if apiKey = [] then Inl NotConfigured
      else case res of
        HttpFailure code body \<Rightarrow> Inl (ApiError code body)
      | HttpOk raw \<Rightarrow>
          (case routes raw of
             None \<Rightarrow> Inr \<lparr>routeCheckStatus = NO_ROUTE, routeCheckInfo = None\<rparr>
           | Some [] \<Rightarrow> Inr \<lparr>routeCheckStatus = NO_ROUTE, routeCheckInfo = None\<rparr>
           | Some (r # others) \<Rightarrow>
               (let routePoints = concat (map points (legs r));
                    distanceRatio = fdiv (lengthInMeters (summary r)) DIRECT_DISTANCE_M;
                    isShortRoute = distanceRatio < DETOUR_THRESHOLD_MULTIPLIER;
                    closestToMidpoint = findClosestDistance routePoints A417_MIDPOINT;
                    passesNearMidpoint = num_less closestToMidpoint (Finite MIDPOINT_PROXIMITY_M);
                    routingThrough = isShortRoute \<and> passesNearMidpoint;
                    status = (if routingThrough then ROUTING_THROUGH else ROUTING_AROUND)
                in Inr \<lparr>routeCheckStatus = status,
                        routeCheckInfo = Some \<lparr>distanceM = lengthInMeters (summary r),
                                      durationSec = travelTimeInSeconds (summary r),
                                      trafficDelaySec = trafficDelayInSeconds (summary r),
                                      distanceRatio =
                                        fdiv (math_round (fmul distanceRatio 100)) 100,
                                      closestToMidpointM = num_round closestToMidpoint\<rparr>\<rparr>)))"

section \<open>Traffic worker\<close>

text \<open>
  Two unions of the worker repeat a literal of another union; the constructors
  \<open>ERROR_READING\<close> and \<open>NO_LIVE_DATA_WINDOW\<close> carry a suffix.
\<close>

datatype ReadingStatus = NO_MATCH | NO_DATA | HAS_LIVE_DATA | NO_LIVE_DATA | ERROR_READING

datatype AggregatedStatus = LIKELY_OPEN | NO_LIVE_DATA_WINDOW | INSUFFICIENT_DATA

record MapboxAnnotation =
  speed :: "real list option"
  congestion :: "string list option"
  distance :: "real list option"

record MapboxLeg =
  annotation :: "MapboxAnnotation option"

record MapboxMatching =
  matchConfidence :: real
  matchLegs :: "MapboxLeg list"

record MapboxMatchResponse =
  code :: string
  matchings :: "MapboxMatching list option"

text \<open>
  The result of one poll. \<open>segments\<close> is the array that the worker serialises into
  \<^verbatim>\<open>segmentsJson\<close>; the serialised geometry is left out.
\<close>

record Segment =
  speedMph :: real
  segCongestion :: string
  segDistanceM :: real

record MapboxResult =
  resultStatus :: ReadingStatus
  hasLiveData :: bool
  avgSpeedMph :: "real option"
  resultConfidence :: "real option"
  segments :: "Segment list option"

definition mpsToMph :: "real \<Rightarrow> real" where
  "mpsToMph mps = math_round (mps * 2.23694 * 10) / 10"

text \<open>The three arrays collected over the legs of the matching.\<close>

definition legSpeeds :: "MapboxLeg \<Rightarrow> real list" where
  "legSpeeds leg =
     (case annotation leg of None \<Rightarrow> []
      | Some a \<Rightarrow> (case speed a of None \<Rightarrow> [] | Some xs \<Rightarrow> xs))"

definition legCongestion :: "MapboxLeg \<Rightarrow> string list" where
  "legCongestion leg =
     (case annotation leg of None \<Rightarrow> []
      | Some a \<Rightarrow> (case congestion a of None \<Rightarrow> [] | Some xs \<Rightarrow> xs))"

definition legDistances :: "MapboxLeg \<Rightarrow> real list" where
  "legDistances leg =
     (case annotation leg of None \<Rightarrow> []
      | Some a \<Rightarrow> (case distance a of None \<Rightarrow> [] | Some xs \<Rightarrow> xs))"

definition allSpeeds :: "MapboxMatching \<Rightarrow> real list" where
  "allSpeeds matching = concat (map legSpeeds (matchLegs matching))"

definition allCongestion :: "MapboxMatching \<Rightarrow> string list" where
  "allCongestion matching = concat (map legCongestion (matchLegs matching))"

definition allDistances :: "MapboxMatching \<Rightarrow> real list" where
  "allDistances matching = concat (map legDistances (matchLegs matching))"

text \<open>\<^verbatim>\<open>allCongestion[i] ?? "unknown"\<close> and \<^verbatim>\<open>allDistances[i] ?? 0\<close>.\<close>

definition congestionAt :: "string list \<Rightarrow> nat \<Rightarrow> string" where
  "congestionAt tags i = (if i < length tags then tags ! i else ''unknown'')"

definition distanceAt :: "real list \<Rightarrow> nat \<Rightarrow> real" where
  "distanceAt ds i = (if i < length ds then ds ! i else 0)"

text \<open>\<^verbatim>\<open>xs.length > 0 ? xs.reduce((a, b) => a + b, 0) / xs.length : null\<close>.\<close>

definition average :: "real list \<Rightarrow> real option" where
  "average xs = (if length xs > 0 then Some (foldl (+) 0 xs / real (length xs)) else None)"

definition noMatch :: MapboxResult where
  "noMatch = \<lparr>resultStatus = NO_MATCH, hasLiveData = False, avgSpeedMph = None,
              resultConfidence = None, segments = None\<rparr>"

definition fetchMapbox :: "string \<Rightarrow> MapboxMatchResponse FetchResult \<Rightarrow> WorkerError + MapboxResult" where
  "fetchMapbox token res =
     (if token = [] then Inl NotConfigured
      else case res of
        HttpFailure st body \<Rightarrow> Inl (ApiError st body)
      | HttpOk raw \<Rightarrow>
          (if code raw \<noteq> ''Ok'' then Inr noMatch
           else case matchings raw of
             None \<Rightarrow> Inr noMatch
           | Some [] \<Rightarrow> Inr noMatch
           | Some (matching # others) \<Rightarrow>
               (let speeds = allSpeeds matching;
                    tags = allCongestion matching;
                    dists = allDistances matching
                in if length speeds = 0 then
                     Inr \<lparr>resultStatus = NO_DATA, hasLiveData = False, avgSpeedMph = None,
                          resultConfidence = Some (matchConfidence matching), segments = None\<rparr>
                   else
                     (let live = list_ex (\<lambda>c. c \<noteq> ''unknown'') tags;
                          indexed = zip speeds [0 ..< length speeds];
                          liveSpeedsMph =
                            map (\<lambda>(s, i). mpsToMph s)
                              (filter (\<lambda>(s, i). congestionAt tags i \<noteq> ''unknown'') indexed);
                          segs =
                            map (\<lambda>(s, i). \<lparr>speedMph = mpsToMph s,
                                            segCongestion = congestionAt tags i,
                                            segDistanceM = math_round (distanceAt dists i * 10) / 10\<rparr>)
                              indexed
                      in Inr \<lparr>resultStatus = (if live then HAS_LIVE_DATA else NO_LIVE_DATA),
                              hasLiveData = live,
                              avgSpeedMph = average liveSpeedsMph,
                              resultConfidence = Some (matchConfidence matching),
                              segments = Some segs\<rparr>))))"

text \<open>
  A row of the table \<^verbatim>\<open>readings\<close>, without its two JSON columns, and the row that
  \<^verbatim>\<open>pollAndStore\<close> inserts for the outcome of a poll (an \<^verbatim>\<open>ERROR\<close> row when the poll
  threw).
\<close>

record ReadingRow =
  rowTimestamp :: string
  rowStatus :: ReadingStatus
  has_live_data :: nat
  avg_speed_mph :: "real option"
  rowConfidence :: "real option"

definition storeReading :: "string \<Rightarrow> WorkerError + MapboxResult \<Rightarrow> ReadingRow" where
  "storeReading now result =
     (case result of
        Inr r \<Rightarrow> \<lparr>rowTimestamp = now, rowStatus = resultStatus r,
                  has_live_data = (if hasLiveData r then 1 else 0),
                  avg_speed_mph = avgSpeedMph r, rowConfidence = resultConfidence r\<rparr>
      | Inl e \<Rightarrow> \<lparr>rowTimestamp = now, rowStatus = ERROR_READING, has_live_data = 0,
                  avg_speed_mph = None, rowConfidence = None\<rparr>)"

text \<open>
  \<^verbatim>\<open>aggregateReadings\<close> from the rows that its query returns, newest first
  (\<^verbatim>\<open>ORDER BY timestamp DESC\<close>); \<^verbatim>\<open>rows.results\<close> may be missing. The window of an empty
  result has no \<^verbatim>\<open>readingsWithLiveData\<close>. The fields \<^verbatim>\<open>timestamp\<close>, \<^verbatim>\<open>location\<close> and
  \<^verbatim>\<open>geometry\<close> of the answer are left out.
\<close>

record AggregatedWindow =
  windowDescription :: string
  windowSince :: "string option"
  windowReadings :: nat
  windowReadingsWithLiveData :: "nat option"

record Aggregate =
  aggWindow :: AggregatedWindow
  aggStatus :: AggregatedStatus
  aggAverageSpeedMph :: "real option"
  aggMostRecentLiveSpeedMph :: "real option"
  aggMostRecentLiveTimestamp :: "string option"

definition windowLabel :: "string option \<Rightarrow> string" where
  "windowLabel sinceParam =
     (case sinceParam of
        None \<Rightarrow> ''last 30 minutes''
      | Some s \<Rightarrow> if s = [] then ''last 30 minutes'' else ''since '' @ s)"

definition aggregateReadings :: "string option \<Rightarrow> ReadingRow list option \<Rightarrow> Aggregate" where
  "aggregateReadings sinceParam results =
     (let rows = (case results of None \<Rightarrow> [] | Some rs \<Rightarrow> rs) in
      if length rows = 0 then
        \<lparr>aggWindow = \<lparr>windowDescription = windowLabel sinceParam, windowSince = sinceParam,
                      windowReadings = 0, windowReadingsWithLiveData = None\<rparr>,
         aggStatus = INSUFFICIENT_DATA,
         aggAverageSpeedMph = None,
         aggMostRecentLiveSpeedMph = None,
         aggMostRecentLiveTimestamp = None\<rparr>
      else
        (let liveReadings = filter (\<lambda>r. has_live_data r = 1) rows;
             anyLiveData = length liveReadings > 0;
             liveSpeeds = List.map_filter avg_speed_mph liveReadings;
             avgSpeed =
               (if length liveSpeeds > 0
                then Some (fdiv (math_round
                             (fmul (fdiv (foldl fadd 0 liveSpeeds) (real (length liveSpeeds))) 10))
                           10)
                else None);
             mostRecentLive = find (\<lambda>r. avg_speed_mph r \<noteq> None) liveReadings
         in \<lparr>aggWindow = \<lparr>windowDescription = windowLabel sinceParam, windowSince = sinceParam,
                          windowReadings = length rows,
                          windowReadingsWithLiveData = Some (length liveReadings)\<rparr>,
             aggStatus = (if anyLiveData then LIKELY_OPEN else NO_LIVE_DATA_WINDOW),
             aggAverageSpeedMph = avgSpeed,
             aggMostRecentLiveSpeedMph =
               (case mostRecentLive of None \<Rightarrow> None | Some r \<Rightarrow> avg_speed_mph r),
             aggMostRecentLiveTimestamp =
               (case mostRecentLive of None \<Rightarrow> None | Some r \<Rightarrow> Some (rowTimestamp r))\<rparr>))"

section \<open>Notions used to state the properties\<close>

text \<open>
  The difference that the trend compares: last value minus first value of the trailing
  eight readings (of all of them when there are fewer), as the subtraction of doubles
  gives it.
\<close>

definition trailing8 :: "EAReading list \<Rightarrow> EAReading list" where
  "trailing8 rs = drop (length rs - 8) rs"

definition windowDiff :: "EAReading list \<Rightarrow> real" where
  "windowDiff rs = fsub (value (last (trailing8 rs))) (value (hd (trailing8 rs)))"


text \<open>
  The great-circle distance on a sphere of radius 6371000 m: the radius times the angle
  between the two positions, whose cosine is the product of their unit vectors (the
  spherical law of cosines). Degrees are turned into radians.
\<close>

definition radians :: "real \<Rightarrow> real" where
  "radians deg = deg / 180 * pi"

definition greatCircleM :: "LatLng \<Rightarrow> RoutePoint \<Rightarrow> real" where
  "greatCircleM target point =
     6371000 * arccos (sin (radians (latitude point)) * sin (radians (lat target))
                       + cos (radians (latitude point)) * cos (radians (lat target))
                         * cos (radians (lng target - longitude point)))"

text \<open>The points of a route, their distance to a target, and the summary that is returned.\<close>

definition routePointsOf :: "TomTomRoute \<Rightarrow> RoutePoint list" where
  "routePointsOf r = concat (map points (legs r))"

definition distanceTo :: "LatLng \<Rightarrow> RoutePoint \<Rightarrow> real" where
  "distanceTo target point = haversineM (latitude point) (longitude point) (lat target) (lng target)"

definition routeInfo :: "TomTomRoute \<Rightarrow> RouteInfo" where
  "routeInfo r =
     \<lparr>distanceM = lengthInMeters (summary r),
      durationSec = travelTimeInSeconds (summary r),
      trafficDelaySec = trafficDelayInSeconds (summary r),
      distanceRatio =
        fdiv (math_round (fmul (fdiv (lengthInMeters (summary r)) DIRECT_DISTANCE_M) 100)) 100,
      closestToMidpointM =
        num_round (findClosestDistance (concat (map points (legs r))) A417_MIDPOINT)\<rparr>"


definition meanOf :: "real list \<Rightarrow> real option" where
  "meanOf xs = (if xs = [] then None else Some (sum_list xs / real (length xs)))"

text \<open>
  A poll of the window is live when its row has \<^verbatim>\<open>has_live_data = 1\<close>. The mean of the
  window is the unweighted mean of the speeds recorded by its live polls, one value a poll:
  \<open>meanOfLivePolls\<close> over the reals, \<open>doubleMean\<close> as doubles add and divide, from the
  newest poll to the oldest. \<open>roundToTenth\<close> rounds a double to one decimal place.
\<close>

definition isLive :: "ReadingRow \<Rightarrow> bool" where
  "isLive r = (has_live_data r = 1)"

definition liveSpeedsOf :: "ReadingRow list \<Rightarrow> real list" where
  "liveSpeedsOf rows =
     List.map_filter (\<lambda>r. if has_live_data r = 1 then avg_speed_mph r else None) rows"

definition meanOfLivePolls :: "ReadingRow list \<Rightarrow> real option" where
  "meanOfLivePolls rows = meanOf (liveSpeedsOf rows)"

definition doubleMean :: "real list \<Rightarrow> real option" where
  "doubleMean xs = (if xs = [] then None else Some (fdiv (foldl fadd 0 xs) (real (length xs))))"

definition roundToTenth :: "real \<Rightarrow> real" where
  "roundToTenth x = fdiv (of_int \<lfloor>fmul x 10 + 1 / 2\<rfloor>) 10"

definition newestLivePoll :: "ReadingRow list \<Rightarrow> ReadingRow option" where
  "newestLivePoll rows = find isLive rows"

section \<open>Example inputs\<close>

definition trafficWith :: "real option \<Rightarrow> TrafficResponse" where
  "trafficWith n =
     \<lparr>timestamp = ''2024-01-05T12:00:00.000Z'', location = ''A417'', status = ''LIKELY_OPEN'',
      window = \<lparr>description = ''since 2024-01-05T06:00:00Z'',
                since = Some ''2024-01-05T06:00:00Z'', readings = 30,
                readingsWithLiveData = n\<rparr>,
      averageSpeedMph = None, mostRecentLiveSpeedMph = None, mostRecentLiveTimestamp = None\<rparr>"

definition reading :: "string \<Rightarrow> real \<Rightarrow> EAReading" where
  "reading s v = \<lparr>dateTime = s, value = v\<rparr>"



text \<open>
  Three short series: three readings; four readings from 0 to 0.02; four readings from
  3.49 to 3.51. The values are the doubles of the decimals.
\<close>

definition shortSeries :: "EAReading list" where
  "shortSeries =
     [reading ''2024-01-01T00:00:00Z'' 0, reading ''2024-01-01T00:15:00Z'' 1.5,
      reading ''2024-01-01T00:30:00Z'' 0.5]"

definition boundarySeries :: "EAReading list" where
  "boundarySeries =
     [reading ''2024-01-01T00:00:00Z'' 0, reading ''2024-01-01T00:15:00Z'' 1.5,
      reading ''2024-01-01T00:30:00Z'' 0.5, reading ''2024-01-01T00:45:00Z'' (double 0.02)]"

definition closeSeries :: "EAReading list" where
  "closeSeries =
     [reading ''2024-01-01T00:00:00Z'' (double 3.49), reading ''2024-01-01T00:15:00Z'' 3.5,
      reading ''2024-01-01T00:30:00Z'' 3.5, reading ''2024-01-01T00:45:00Z'' (double 3.51)]"

definition exampleRoute :: "real \<Rightarrow> RoutePoint list \<Rightarrow> TomTomRoute" where
  "exampleRoute len pts =
     \<lparr>summary = \<lparr>lengthInMeters = len, travelTimeInSeconds = 150, trafficDelayInSeconds = 0,
                 departureTime = ''2024-01-05T12:00:00Z'', arrivalTime = ''2024-01-05T12:02:30Z''\<rparr>,
      legs = [\<lparr>points = pts\<rparr>]\<rparr>"

definition exampleResponse :: "TomTomRoute list \<Rightarrow> TomTomRoutingResponse" where
  "exampleResponse rs = \<lparr>formatVersion = ''0.0.12'', routes = Some rs\<rparr>"

text \<open>
  Two points on the meridian of the A417 midpoint: 0.001 degrees north of it (about 111 m)
  and 0.01 degrees north of it (about 1112 m).
\<close>

definition nearPoint :: RoutePoint where
  "nearPoint = \<lparr>latitude = 51.8850967853921, longitude = -2.2672132659056956\<rparr>"

definition farPoint :: RoutePoint where
  "farPoint = \<lparr>latitude = 51.8940967853921, longitude = -2.2672132659056956\<rparr>"


definition liveRow :: "string \<Rightarrow> real option \<Rightarrow> ReadingRow" where
  "liveRow t v = \<lparr>rowTimestamp = t, rowStatus = HAS_LIVE_DATA, has_live_data = 1,
                  avg_speed_mph = v, rowConfidence = Some 0.9\<rparr>"

definition staleRow :: "string \<Rightarrow> ReadingRow" where
  "staleRow t = \<lparr>rowTimestamp = t, rowStatus = NO_LIVE_DATA, has_live_data = 0,
                 avg_speed_mph = None, rowConfidence = Some 0.9\<rparr>"

text \<open>
  Two windows, newest poll first, with the speeds as the decoded decimals 20.2, 29.9 and
  20.04.
\<close>

definition exampleWindow :: "ReadingRow list" where
  "exampleWindow =
     [liveRow ''2024-01-05T12:02:00.000Z'' (Some (double 20.2)),
      staleRow ''2024-01-05T12:01:00.000Z'',
      liveRow ''2024-01-05T12:00:00.000Z'' (Some (double 29.9))]"

definition shortWindow :: "ReadingRow list" where
  "shortWindow =
     [liveRow ''2024-01-05T12:02:00.000Z'' (Some (double 20.04)),
      staleRow ''2024-01-05T12:01:00.000Z'']"

section \<open>Properties of the reconciler\<close>

text \<open>
  C1. Precedence: with flood status FLOODED the verdict is closed with HIGH confidence,
  whatever the route and traffic signals are; with flood status RECEDING and a
  traffic-since-flood response whose count of live readings is positive, the verdict is open
  with HIGH confidence, whatever the route status is.
\<close>

theorem assessRoadStatus_precedence:
  "isOpen (assessRoadStatus FLOODED routeStatus trafficData trafficSinceFlood) = Some False
   \<and> confidence (assessRoadStatus FLOODED routeStatus trafficData trafficSinceFlood) = HIGH
   \<and> (readingsWithLiveData (window t) = Some n \<and> n > 0 \<longrightarrow>
        isOpen (assessRoadStatus RECEDING routeStatus trafficData (Some t)) = Some True
        \<and> confidence (assessRoadStatus RECEDING routeStatus trafficData (Some t)) = HIGH)"
  by (simp add: assessRoadStatus_def liveDataPositive_def)

text \<open>
  The precedence rules at work: a flooded river with a route planner that routes through,
  and a receding river with four live readings and a route planner that routes around.
\<close>

theorem assessRoadStatus_precedence_witness:
  "isOpen (assessRoadStatus FLOODED (Some ROUTING_THROUGH) None (Some (trafficWith (Some 4))))
     = Some False
   \<and> confidence (assessRoadStatus FLOODED (Some ROUTING_THROUGH) None (Some (trafficWith (Some 4))))
     = HIGH
   \<and> isOpen (assessRoadStatus RECEDING (Some ROUTING_AROUND) None (Some (trafficWith (Some 4))))
     = Some True
   \<and> confidence (assessRoadStatus RECEDING (Some ROUTING_AROUND) None (Some (trafficWith (Some 4))))
     = HIGH"
proof -
  have live: "readingsWithLiveData (window (trafficWith (Some 4))) = Some 4 \<and> (4::real) > 0"
    by (simp add: trafficWith_def)
  show ?thesis
    using live
      assessRoadStatus_precedence
        [where routeStatus = "Some ROUTING_THROUGH" and trafficData = None
           and trafficSinceFlood = "Some (trafficWith (Some 4))"
           and t = "trafficWith (Some 4)" and n = 4]
      assessRoadStatus_precedence
        [where routeStatus = "Some ROUTING_AROUND" and trafficData = None
           and trafficSinceFlood = "Some (trafficWith (Some 4))"
           and t = "trafficWith (Some 4)" and n = 4]
    by simp
qed

text \<open>
  C2. With flood status UNKNOWN the reconciler runs the branch written for CLEAR: a route
  status ROUTING_THROUGH gives an open verdict with HIGH confidence and the reason
  "Water levels are normal and traffic is routing through.", not an uncertain verdict with
  LOW confidence.
\<close>

theorem assessRoadStatus_unknown_routing_through:
  "assessRoadStatus UNKNOWN (Some ROUTING_THROUGH) None None =
     \<lparr>isOpen = Some True, confidence = HIGH,
      reason = ''Water levels are normal and traffic is routing through.''\<rparr>"
  by (simp add: assessRoadStatus_def)

text \<open>
  C10. The verdict does not depend on the third argument, the current traffic window:
  two calls that differ only there return the same assessment (openness, confidence and
  reason).
\<close>

theorem assessRoadStatus_ignores_trafficData:
  "assessRoadStatus floodStatus routeStatus trafficData trafficSinceFlood =
   assessRoadStatus floodStatus routeStatus trafficData' trafficSinceFlood"
  by (simp add: assessRoadStatus_def)

text \<open>A receding river: the verdict is the same with no current window and with a full one.\<close>

theorem assessRoadStatus_ignores_trafficData_witness:
  "assessRoadStatus RECEDING (Some ROUTING_THROUGH) None (Some (trafficWith (Some 0))) =
   assessRoadStatus RECEDING (Some ROUTING_THROUGH) (Some (trafficWith (Some 12)))
     (Some (trafficWith (Some 0)))"
  by (rule assessRoadStatus_ignores_trafficData)

section \<open>Evaluating double-precision arithmetic\<close>

lemma pow2_powr: "pow2 k = 2 powr (of_int k)"
proof (cases "0 \<le> k")
  case True
  then have "(2::real) powr (of_int k) = 2 powr (real (nat k))" by simp
  also have "\<dots> = 2 ^ nat k" by (rule powr_realpow) simp
  finally show ?thesis using True by (simp add: pow2_def)
next
  case False
  then have "(2::real) powr (of_int k) = 2 powr (- real (nat (- k)))" by simp
  also have "\<dots> = 1 / 2 powr (real (nat (- k)))" by (rule powr_minus_divide)
  also have "2 powr (real (nat (- k))) = (2::real) ^ nat (- k)" by (rule powr_realpow) simp
  finally show ?thesis using False by (simp add: pow2_def)
qed

lemma pow2_pos: "0 < pow2 k"
  by (simp add: pow2_def)

lemma floor_log2:
  assumes "pow2 k \<le> \<bar>x\<bar>" and "\<bar>x\<bar> < pow2 (k + 1)"
  shows "\<lfloor>log 2 \<bar>x\<bar>\<rfloor> = k"
proof (rule floor_unique)
  have pos: "0 < \<bar>x\<bar>" using assms(1) pow2_pos [of k] by linarith
  show "of_int k \<le> log 2 \<bar>x\<bar>"
    using assms(1) pos by (simp add: le_log_iff pow2_powr)
  have "log 2 \<bar>x\<bar> < of_int (k + 1)"
    using assms(2) pos by (simp add: log_less_iff pow2_powr del: of_int_add)
  then show "log 2 \<bar>x\<bar> < of_int k + 1" by simp
qed

text \<open>The double nearest to a number, once the binade \<open>[2^k, 2^(k+1))\<close> of the number is known.\<close>

lemma double_eval:
  assumes "pow2 k \<le> \<bar>x\<bar>" and "\<bar>x\<bar> < pow2 (k + 1)"
  shows "double x = of_int (roundTiesToEven (x / pow2 (max (k - 52) (- 1074))))
                     * pow2 (max (k - 52) (- 1074))"
proof -
  have "x \<noteq> 0" using assms(1) pow2_pos [of k] by auto
  then show ?thesis
    by (simp add: double_def ulpExponent_def floor_log2 [OF assms])
qed

lemmas double_at =
  double_eval [where k = "-6"] double_eval [where k = 0] double_eval [where k = 1]
  double_eval [where k = 4] double_eval [where k = 5] double_eval [where k = 6]
  double_eval [where k = 7]

lemmas float_eval =
  fadd_def fsub_def fmul_def fdiv_def double_at pow2_def roundTiesToEven_def Let_def
  math_round_def

section \<open>Properties of the trend and flood-status classifiers\<close>

lemma slice_last_eq_drop: "slice_last n xs = drop (length xs - n) xs"
  by (simp add: slice_last_def)

lemma windowDiff_index:
  assumes "rs \<noteq> []"
  shows "windowDiff rs =
    fsub (value (slice_last 8 rs ! (length (slice_last 8 rs) - 1))) (value (slice_last 8 rs ! 0))"
proof -
  have "0 < length rs" using assms by simp
  then have "\<not> length rs \<le> length rs - 8" by arith
  then have ne: "trailing8 rs \<noteq> []" by (simp add: trailing8_def)
  have eq: "slice_last 8 rs = trailing8 rs" by (simp add: slice_last_eq_drop trailing8_def)
  show ?thesis
    unfolding windowDiff_def eq using ne by (simp add: last_conv_nth hd_conv_nth)
qed

lemma length_slice_last: "4 \<le> length rs \<Longrightarrow> \<not> length (slice_last 8 rs) < 2"
  by (simp add: slice_last_def)

text \<open>
  C4. The trend of fewer than four readings is unknown. Of four or more, with the
  difference that the code computes (last value minus first value of the trailing window,
  in double precision) and its constant 0.02, it is STEADY exactly when the difference is
  below 0.02 in absolute value, RISING exactly when the difference is positive and not
  steady, FALLING otherwise; a difference of exactly 0.02 is not steady.
\<close>

theorem determineTrend_window:
  "(length rs < 4 \<longrightarrow> determineTrend rs = UNKNOWN_TREND)
   \<and> (4 \<le> length rs \<longrightarrow>
        (determineTrend rs = STEADY \<longleftrightarrow> \<bar>windowDiff rs\<bar> < double 0.02)
      \<and> (determineTrend rs = RISING \<longleftrightarrow> windowDiff rs > 0 \<and> \<not> \<bar>windowDiff rs\<bar> < double 0.02)
      \<and> (determineTrend rs = FALLING \<longleftrightarrow> \<not> windowDiff rs > 0 \<and> \<not> \<bar>windowDiff rs\<bar> < double 0.02)
      \<and> (windowDiff rs = double 0.02 \<longrightarrow> determineTrend rs = RISING))"
proof (cases "length rs < 4")
  case True
  then show ?thesis by (simp add: determineTrend_def)
next
  case False
  then have len: "4 \<le> length rs" by simp
  then have ne: "rs \<noteq> []" by auto
  have band: "0 < double 0.02" by (simp add: float_eval)
  have "determineTrend rs =
      (if \<bar>windowDiff rs\<bar> < double 0.02 then STEADY
       else if windowDiff rs > 0 then RISING else FALLING)"
    using len length_slice_last [OF len]
    by (simp add: determineTrend_def Let_def windowDiff_index [OF ne])
  then show ?thesis using len band by auto
qed

text \<open>
  Three readings give no trend. Four readings from 0 to 0.02 have a computed difference of
  exactly 0.02 and are rising. Four readings from 3.49 to 3.51 have a computed difference
  of 5629499534213 / 2^48, which is 0.019999999999999574, and are steady.
\<close>

theorem determineTrend_window_witness:
  "determineTrend shortSeries = UNKNOWN_TREND
   \<and> windowDiff boundarySeries = double 0.02
   \<and> determineTrend boundarySeries = RISING
   \<and> windowDiff closeSeries = 5629499534213 / 2 ^ 48
   \<and> determineTrend closeSeries = STEADY"
proof -
  have len: "length shortSeries < 4" "4 \<le> length boundarySeries" "4 \<le> length closeSeries"
    by (simp_all add: shortSeries_def boundarySeries_def closeSeries_def)
  have rising: "windowDiff boundarySeries = double 0.02"
    by (simp add: boundarySeries_def windowDiff_def trailing8_def reading_def float_eval)
  have steady: "windowDiff closeSeries = 5629499534213 / 2 ^ 48"
    by (simp add: closeSeries_def windowDiff_def trailing8_def reading_def float_eval)
  have below: "\<bar>windowDiff closeSeries\<bar> < double 0.02"
    unfolding steady by (simp add: float_eval)
  show ?thesis
    using len rising steady below
      determineTrend_window [of shortSeries]
      determineTrend_window [of boundarySeries]
      determineTrend_window [of closeSeries]
    by simp
qed









text \<open>The drop time is unknown exactly when no reading of the series reached ROAD_FLOOD.\<close>

lemma scanBackward_None:
  "n \<le> length rs \<Longrightarrow> scanBackward rs n = None \<longleftrightarrow> (\<forall>i < n. value (rs ! i) < ROAD_FLOOD)"
  by (induction n) (auto simp: less_Suc_eq)

lemma findTimeWaterDroppedBelowFlood_None:
  "findTimeWaterDroppedBelowFlood rs = None \<longleftrightarrow> (\<forall>r \<in> set rs. value r < ROAD_FLOOD)"
  by (simp add: findTimeWaterDroppedBelowFlood_def scanBackward_None all_set_conv_all_nth)

section \<open>Properties of the route check\<close>

lemma closestLoop_fold:
  "closestLoop (Finite d) pts target = Finite (fold min (map (distanceTo target) pts) d)"
proof (induction pts arbitrary: d)
  case Nil
  then show ?case by simp
next
  case (Cons p pts)
  have "(if distanceTo target p < d then distanceTo target p else d) = min (distanceTo target p) d"
    by (simp add: min_def)
  then show ?case
    by (simp add: Cons.IH Let_def distanceTo_def [symmetric] if_distrib [of Finite, symmetric]
          del: if_distrib)
qed

text \<open>
  Over a non-empty sequence the loop computes the minimum of the distances; over the empty
  sequence it returns its start value, \<^verbatim>\<open>Infinity\<close>.
\<close>

lemma findClosestDistance_Min:
  "findClosestDistance pts target =
     (if pts = [] then Infinity else Finite (Min (distanceTo target ` set pts)))"
proof (cases pts)
  case Nil
  then show ?thesis by (simp add: findClosestDistance_def)
next
  case (Cons p rest)
  have "closestLoop Infinity (p # rest) target = closestLoop (Finite (distanceTo target p)) rest target"
    by (simp add: Let_def distanceTo_def)
  also have "\<dots> = Finite (fold min (map (distanceTo target) rest) (distanceTo target p))"
    by (rule closestLoop_fold)
  also have "fold min (map (distanceTo target) rest) (distanceTo target p)
      = Min (set (distanceTo target p # map (distanceTo target) rest))"
    by (rule Min.set_eq_fold [symmetric])
  finally show ?thesis using Cons by (simp add: findClosestDistance_def)
qed

text \<open>
  The haversine formula computes the great-circle distance: with \<open>D\<close> the product of the
  two unit vectors and \<open>c = arccos D\<close> the angle between them, the quantity \<open>a\<close> of the
  formula is \<open>(1 - D) / 2\<close>, the square of \<open>sin (c / 2)\<close>, and the angle that
  \<^verbatim>\<open>atan2\<close> returns is \<open>c / 2\<close>.
\<close>

lemma sin_half_squared: "(sin (x / 2))\<^sup>2 = (1 - cos (x::real)) / 2"
  using cos_double_sin [of "x / 2"] by simp

lemma cos_half_squared: "(cos (x / 2))\<^sup>2 = (1 + cos (x::real)) / 2"
  using cos_double_cos [of "x / 2"] by simp

lemma dot_bounds:
  fixes s1 c1 s2 c2 k :: real
  assumes "s1\<^sup>2 + c1\<^sup>2 = 1" and "s2\<^sup>2 + c2\<^sup>2 = 1" and "\<bar>k\<bar> \<le> 1"
  shows "\<bar>s1 * s2 + c1 * c2 * k\<bar> \<le> 1"
proof -
  have "\<bar>c1 * c2 * k\<bar> = \<bar>c1\<bar> * \<bar>c2\<bar> * \<bar>k\<bar>" by (simp add: abs_mult)
  also have "\<dots> \<le> \<bar>c1\<bar> * \<bar>c2\<bar> * 1"
    by (rule mult_left_mono [OF assms(3)]) simp
  finally have ck: "\<bar>c1 * c2 * k\<bar> \<le> \<bar>c1\<bar> * \<bar>c2\<bar>" by simp
  have s: "2 * \<bar>s1\<bar> * \<bar>s2\<bar> \<le> s1\<^sup>2 + s2\<^sup>2"
    using sum_squares_bound [of "\<bar>s1\<bar>" "\<bar>s2\<bar>"] by simp
  have c: "2 * \<bar>c1\<bar> * \<bar>c2\<bar> \<le> c1\<^sup>2 + c2\<^sup>2"
    using sum_squares_bound [of "\<bar>c1\<bar>" "\<bar>c2\<bar>"] by simp
  have "\<bar>s1\<bar> * \<bar>s2\<bar> + \<bar>c1\<bar> * \<bar>c2\<bar> \<le> 1"
    using s c assms(1,2) by linarith
  moreover have "\<bar>s1 * s2 + c1 * c2 * k\<bar> \<le> \<bar>s1\<bar> * \<bar>s2\<bar> + \<bar>c1 * c2 * k\<bar>"
    using abs_triangle_ineq [of "s1 * s2" "c1 * c2 * k"] by (simp add: abs_mult)
  ultimately show ?thesis using ck by linarith
qed

lemma atan2_sin_cos:
  assumes "0 \<le> h" and "h \<le> pi / 2"
  shows "atan2 (sin h) (cos h) = h"
proof (cases "h < pi / 2")
  case True
  then have pos: "0 < cos h" using assms(1) by (intro cos_gt_zero_pi) linarith+
  have "arctan (sin h / cos h) = arctan (tan h)" by (simp add: tan_def)
  also have "\<dots> = h" using True assms(1) by (intro arctan_tan) linarith+
  finally show ?thesis using pos by (simp add: atan2_def)
next
  case False
  then have h: "h = pi / 2" using assms(2) by simp
  show ?thesis unfolding h by (simp add: atan2_def)
qed

lemma toRad_radians: "toRad d = radians d"
  by (simp add: toRad_def radians_def)

lemma radians_diff: "radians (x - y) = radians x - radians y"
  by (simp add: radians_def algebra_simps diff_divide_distrib)

lemma radians_range:
  assumes "0 \<le> x" and "x \<le> 180"
  shows "0 \<le> radians x" and "radians x \<le> pi"
proof -
  show "0 \<le> radians x" using assms(1) by (simp add: radians_def)
  have "x / 180 \<le> 1" using assms(2) by simp
  then have "x / 180 * pi \<le> 1 * pi" by (rule mult_right_mono) simp
  then show "radians x \<le> pi" by (simp add: radians_def)
qed

lemma haversineM_great_circle: "distanceTo target point = greatCircleM target point"
proof -
  define p1 where "p1 = radians (latitude point)"
  define p2 where "p2 = radians (lat target)"
  define l where "l = radians (lng target - longitude point)"
  define D where "D = sin p1 * sin p2 + cos p1 * cos p2 * cos l"
  define c where "c = arccos D"
  define a where "a = (sin ((p2 - p1) / 2))\<^sup>2 + cos p1 * cos p2 * (sin (l / 2))\<^sup>2"
  have D: "\<bar>D\<bar> \<le> 1"
    unfolding D_def by (rule dot_bounds) simp_all
  then have c_range: "0 \<le> c" "c \<le> pi" and cos_c: "cos c = D"
    unfolding c_def by (simp_all add: arccos_lbound arccos_ubound abs_le_iff)
  have lat_diff: "toRad (lat target - latitude point) = p2 - p1"
    by (simp add: toRad_radians radians_diff p1_def p2_def)
  have "a = (1 - cos (p2 - p1)) / 2 + cos p1 * cos p2 * ((1 - cos l) / 2)"
    unfolding a_def by (simp only: sin_half_squared)
  also have "\<dots> = (1 - D) / 2"
  proof -
    have "(1 - (c2 * c1 + s2 * s1)) / 2 + c1 * c2 * ((1 - k) / 2)
        = (1 - (s1 * s2 + c1 * c2 * k)) / 2" for s1 c1 s2 c2 k :: real
      by (simp add: field_simps)
    then show ?thesis unfolding D_def by (simp only: cos_diff)
  qed
  finally have a_D: "a = (1 - D) / 2" .
  have a_sin: "a = (sin (c / 2))\<^sup>2"
    by (simp add: a_D sin_half_squared cos_c)
  have a_cos: "1 - a = (cos (c / 2))\<^sup>2"
    by (simp add: a_D cos_half_squared cos_c field_simps)
  have half: "0 \<le> c / 2" "c / 2 \<le> pi / 2" using c_range by simp_all
  have "0 \<le> sin (c / 2)" using half by (intro sin_ge_zero) linarith+
  then have sq1: "sqrt a = sin (c / 2)" by (simp add: a_sin)
  have "0 \<le> cos (c / 2)" using half by (intro cos_ge_zero) linarith+
  then have sq2: "sqrt (1 - a) = cos (c / 2)" by (simp add: a_cos)
  have "haversineM (latitude point) (longitude point) (lat target) (lng target)
      = 6371000 * 2 * atan2 (sqrt a) (sqrt (1 - a))"
    unfolding haversineM_def Let_def lat_diff
    by (simp add: a_def toRad_radians p1_def p2_def l_def)
  then have "distanceTo target point = 6371000 * 2 * atan2 (sqrt a) (sqrt (1 - a))"
    by (simp add: distanceTo_def)
  also have "\<dots> = 6371000 * 2 * (c / 2)"
    by (simp only: sq1 sq2 atan2_sin_cos [OF half])
  finally show ?thesis
    by (simp add: greatCircleM_def c_def D_def p1_def p2_def l_def)
qed

lemma checkRoute_route:
  assumes "apiKey \<noteq> []" and "routes raw = Some (r # others)"
  shows "checkRoute apiKey (HttpOk raw) =
     Inr \<lparr>routeCheckStatus =
            (if fdiv (lengthInMeters (summary r)) DIRECT_DISTANCE_M < DETOUR_THRESHOLD_MULTIPLIER
                \<and> num_less (findClosestDistance (routePointsOf r) A417_MIDPOINT)
                     (Finite MIDPOINT_PROXIMITY_M)
             then ROUTING_THROUGH else ROUTING_AROUND),
          routeCheckInfo = Some (routeInfo r)\<rparr>"
  using assms by (simp add: checkRoute_def Let_def routeInfo_def routePointsOf_def)

text \<open>
  C5. With a configured key and at least one route in the answer, the first route is
  classified ROUTING_THROUGH exactly when its length divided by DIRECT_DISTANCE_M (as
  doubles divide) is below the multiplier 2.5 and the minimum great-circle distance of its
  points to the A417 midpoint is below 150 m, and ROUTING_AROUND otherwise; with no route in
  the answer the status is NO_ROUTE.
\<close>

theorem checkRoute_classification:
  assumes "apiKey \<noteq> []"
  shows "(routes raw = Some (r # others) \<longrightarrow>
           checkRoute apiKey (HttpOk raw) =
             Inr \<lparr>routeCheckStatus =
                    (if fdiv (lengthInMeters (summary r)) DIRECT_DISTANCE_M
                          < DETOUR_THRESHOLD_MULTIPLIER
                        \<and> routePointsOf r \<noteq> []
                        \<and> Min (greatCircleM A417_MIDPOINT ` set (routePointsOf r))
                            < MIDPOINT_PROXIMITY_M
                     then ROUTING_THROUGH else ROUTING_AROUND),
                  routeCheckInfo = Some (routeInfo r)\<rparr>)
       \<and> (routes raw = Some [] \<or> routes raw = None \<longrightarrow>
           checkRoute apiKey (HttpOk raw) = Inr \<lparr>routeCheckStatus = NO_ROUTE, routeCheckInfo = None\<rparr>)
       \<and> DETOUR_THRESHOLD_MULTIPLIER = 2.5 \<and> MIDPOINT_PROXIMITY_M = 150"
proof -
  have dist: "distanceTo A417_MIDPOINT = greatCircleM A417_MIDPOINT"
    by (rule ext) (rule haversineM_great_circle)
  have near: "num_less (findClosestDistance (routePointsOf r) A417_MIDPOINT) (Finite MIDPOINT_PROXIMITY_M)
      \<longleftrightarrow> routePointsOf r \<noteq> []
          \<and> Min (greatCircleM A417_MIDPOINT ` set (routePointsOf r)) < MIDPOINT_PROXIMITY_M"
    by (simp add: findClosestDistance_Min dist)
  have some: "routes raw = Some (r # others) \<longrightarrow>
      checkRoute apiKey (HttpOk raw) =
        Inr \<lparr>routeCheckStatus =
               (if fdiv (lengthInMeters (summary r)) DIRECT_DISTANCE_M
                     < DETOUR_THRESHOLD_MULTIPLIER
                   \<and> routePointsOf r \<noteq> []
                   \<and> Min (greatCircleM A417_MIDPOINT ` set (routePointsOf r))
                       < MIDPOINT_PROXIMITY_M
                then ROUTING_THROUGH else ROUTING_AROUND),
             routeCheckInfo = Some (routeInfo r)\<rparr>"
    using checkRoute_route [OF assms] near by simp
  have none: "routes raw = Some [] \<or> routes raw = None \<longrightarrow>
      checkRoute apiKey (HttpOk raw) = Inr \<lparr>routeCheckStatus = NO_ROUTE, routeCheckInfo = None\<rparr>"
    using assms by (auto simp: checkRoute_def)
  show ?thesis
    using some none
    by (simp add: DETOUR_THRESHOLD_MULTIPLIER_def MIDPOINT_PROXIMITY_M_def)
qed

text \<open>Along the meridian of the target the distance is the radius times the angle of latitude.\<close>

lemma greatCircleM_north:
  assumes "longitude point = lng target" and "lat target \<le> latitude point"
    and "latitude point - lat target \<le> 180"
  shows "greatCircleM target point = 6371000 * radians (latitude point - lat target)"
proof -
  have range: "0 \<le> radians (latitude point - lat target)"
      "radians (latitude point - lat target) \<le> pi"
    using assms(2,3) by (simp_all add: radians_range)
  have "sin (radians (latitude point)) * sin (radians (lat target))
        + cos (radians (latitude point)) * cos (radians (lat target))
          * cos (radians (lng target - longitude point))
      = cos (radians (latitude point - lat target))"
    by (simp add: assms(1) radians_diff cos_diff) (simp add: radians_def)
  then show ?thesis
    by (simp add: greatCircleM_def arccos_cos range)
qed

lemma example_distances:
  "greatCircleM A417_MIDPOINT nearPoint < 150"
  "\<not> greatCircleM A417_MIDPOINT farPoint < 150"
proof -
  have near: "greatCircleM A417_MIDPOINT nearPoint = 6371000 * radians 0.001"
    by (subst greatCircleM_north) (simp_all add: A417_MIDPOINT_def nearPoint_def)
  have far: "greatCircleM A417_MIDPOINT farPoint = 6371000 * radians 0.01"
    by (subst greatCircleM_north) (simp_all add: A417_MIDPOINT_def farPoint_def)
  show "greatCircleM A417_MIDPOINT nearPoint < 150"
    using pi_less_4 by (simp add: near radians_def)
  show "\<not> greatCircleM A417_MIDPOINT farPoint < 150"
    using pi_ge_two by (simp add: far radians_def)
qed

text \<open>
  A route of 1800 m that passes 1112 m and then 111 m from the midpoint is routed through;
  a route of 1800 m that comes no nearer than 1112 m is routed around; a route of 5000 m
  that passes 111 m from the midpoint is routed around; an answer without routes gives
  NO_ROUTE.
\<close>

theorem checkRoute_classification_witness:
  "checkRoute ''key'' (HttpOk (exampleResponse [exampleRoute 1800 [farPoint, nearPoint]])) =
     Inr \<lparr>routeCheckStatus = ROUTING_THROUGH,
          routeCheckInfo = Some (routeInfo (exampleRoute 1800 [farPoint, nearPoint]))\<rparr>
   \<and> checkRoute ''key'' (HttpOk (exampleResponse [exampleRoute 1800 [farPoint]])) =
     Inr \<lparr>routeCheckStatus = ROUTING_AROUND,
          routeCheckInfo = Some (routeInfo (exampleRoute 1800 [farPoint]))\<rparr>
   \<and> checkRoute ''key'' (HttpOk (exampleResponse [exampleRoute 5000 [nearPoint]])) =
     Inr \<lparr>routeCheckStatus = ROUTING_AROUND,
          routeCheckInfo = Some (routeInfo (exampleRoute 5000 [nearPoint]))\<rparr>
   \<and> checkRoute ''key'' (HttpOk (exampleResponse [])) =
     Inr \<lparr>routeCheckStatus = NO_ROUTE, routeCheckInfo = None\<rparr>"
proof -
  have key: "''key'' \<noteq> []" by simp
  have pts: "routePointsOf (exampleRoute len ps) = ps" for len ps
    by (simp add: routePointsOf_def exampleRoute_def)
  have short: "fdiv (lengthInMeters (summary (exampleRoute 1800 ps))) DIRECT_DISTANCE_M
      < DETOUR_THRESHOLD_MULTIPLIER" for ps
    by (simp add: exampleRoute_def DIRECT_DISTANCE_M_def DETOUR_THRESHOLD_MULTIPLIER_def
          float_eval)
  have long: "\<not> fdiv (lengthInMeters (summary (exampleRoute 5000 ps))) DIRECT_DISTANCE_M
      < DETOUR_THRESHOLD_MULTIPLIER" for ps
    by (simp add: exampleRoute_def DIRECT_DISTANCE_M_def DETOUR_THRESHOLD_MULTIPLIER_def
          float_eval)
  have both: "Min (greatCircleM A417_MIDPOINT ` set [farPoint, nearPoint]) < MIDPOINT_PROXIMITY_M"
    using example_distances by (simp add: MIDPOINT_PROXIMITY_M_def min_less_iff_disj)
  have far: "\<not> Min (greatCircleM A417_MIDPOINT ` set [farPoint]) < MIDPOINT_PROXIMITY_M"
    using example_distances by (simp add: MIDPOINT_PROXIMITY_M_def)
  have routes: "routes (exampleResponse rs) = Some rs" for rs
    by (simp add: exampleResponse_def)
  have through: "checkRoute ''key'' (HttpOk (exampleResponse [exampleRoute 1800 [farPoint, nearPoint]])) =
     Inr \<lparr>routeCheckStatus = ROUTING_THROUGH,
          routeCheckInfo = Some (routeInfo (exampleRoute 1800 [farPoint, nearPoint]))\<rparr>"
    using checkRoute_classification [OF key, of "exampleResponse [exampleRoute 1800 [farPoint, nearPoint]]"
            "exampleRoute 1800 [farPoint, nearPoint]" "[]"]
    by (simp only: routes pts short both) simp
  have around_far: "checkRoute ''key'' (HttpOk (exampleResponse [exampleRoute 1800 [farPoint]])) =
     Inr \<lparr>routeCheckStatus = ROUTING_AROUND,
          routeCheckInfo = Some (routeInfo (exampleRoute 1800 [farPoint]))\<rparr>"
    using checkRoute_classification [OF key, of "exampleResponse [exampleRoute 1800 [farPoint]]"
            "exampleRoute 1800 [farPoint]" "[]"] far
    by (simp only: routes pts short) simp
  have around_long: "checkRoute ''key'' (HttpOk (exampleResponse [exampleRoute 5000 [nearPoint]])) =
     Inr \<lparr>routeCheckStatus = ROUTING_AROUND,
          routeCheckInfo = Some (routeInfo (exampleRoute 5000 [nearPoint]))\<rparr>"
    using checkRoute_classification [OF key, of "exampleResponse [exampleRoute 5000 [nearPoint]]"
            "exampleRoute 5000 [nearPoint]" "[]"] long
    by (simp only: routes pts) simp
  have no_route: "checkRoute ''key'' (HttpOk (exampleResponse [])) =
     Inr \<lparr>routeCheckStatus = NO_ROUTE, routeCheckInfo = None\<rparr>"
    using checkRoute_classification [OF key, of "exampleResponse []"]
    by (simp only: routes) simp
  show ?thesis
    using through around_far around_long no_route by blast
qed

text \<open>
  C6. The nearest-distance operation raises no error on an empty point sequence: it returns
  \<^verbatim>\<open>Infinity\<close>. A first route without points is classified like any other route, and since
  \<^verbatim>\<open>Infinity\<close> is not below 150 its status is ROUTING_AROUND, with \<^verbatim>\<open>Infinity\<close> reported as
  the closest distance.
\<close>

theorem checkRoute_empty_points:
  "findClosestDistance [] target = Infinity
   \<and> (apiKey \<noteq> [] \<and> routes raw = Some (r # others) \<and> routePointsOf r = [] \<longrightarrow>
        checkRoute apiKey (HttpOk raw) =
          Inr \<lparr>routeCheckStatus = ROUTING_AROUND, routeCheckInfo = Some (routeInfo r)\<rparr>
        \<and> closestToMidpointM (routeInfo r) = Infinity)"
proof -
  have inf: "findClosestDistance [] t = Infinity" for t
    by (simp add: findClosestDistance_def)
  have "checkRoute apiKey (HttpOk raw) =
          Inr \<lparr>routeCheckStatus = ROUTING_AROUND, routeCheckInfo = Some (routeInfo r)\<rparr>
        \<and> closestToMidpointM (routeInfo r) = Infinity"
    if "apiKey \<noteq> []" "routes raw = Some (r # others)" "routePointsOf r = []"
  proof -
    have "closestToMidpointM (routeInfo r)
        = num_round (findClosestDistance (routePointsOf r) A417_MIDPOINT)"
      by (simp add: routeInfo_def routePointsOf_def)
    then show ?thesis
      using checkRoute_route [OF that(1) that(2)] inf by (simp add: that(3))
  qed
  then show ?thesis using inf by blast
qed

text \<open>
  A route of 1800 m whose only leg has no points: no error is raised, the answer is a
  classification, and the classification is ROUTING_AROUND.
\<close>

theorem checkRoute_empty_points_counterexample:
  "findClosestDistance [] A417_MIDPOINT = Infinity
   \<and> checkRoute ''key'' (HttpOk (exampleResponse [exampleRoute 1800 []])) =
       Inr \<lparr>routeCheckStatus = ROUTING_AROUND,
            routeCheckInfo = Some \<lparr>distanceM = 1800, durationSec = 150, trafficDelaySec = 0,
                          distanceRatio = 1, closestToMidpointM = Infinity\<rparr>\<rparr>"
  by (simp add: findClosestDistance_def checkRoute_def exampleResponse_def exampleRoute_def
        DIRECT_DISTANCE_M_def DETOUR_THRESHOLD_MULTIPLIER_def float_eval)

text \<open>The same for a route of 5000 m without points.\<close>

theorem checkRoute_empty_points_witness:
  "findClosestDistance [] A417_MIDPOINT = Infinity
   \<and> checkRoute ''key'' (HttpOk (exampleResponse [exampleRoute 5000 []])) =
       Inr \<lparr>routeCheckStatus = ROUTING_AROUND, routeCheckInfo = Some (routeInfo (exampleRoute 5000 []))\<rparr>
   \<and> closestToMidpointM (routeInfo (exampleRoute 5000 [])) = Infinity"
  using checkRoute_empty_points [of A417_MIDPOINT "''key''"
          "exampleResponse [exampleRoute 5000 []]" "exampleRoute 5000 []" "[]"]
  by (simp add: exampleResponse_def routePointsOf_def exampleRoute_def)

text \<open>The ratio reported for a route of 1809 m is 1: the product 100.49999999999999 rounds down.\<close>

lemma reported_ratio_1809:
  "distanceRatio (routeInfo (exampleRoute 1809 [])) = 1"
  by (simp add: routeInfo_def exampleRoute_def DIRECT_DISTANCE_M_def float_eval)

section \<open>Properties of the traffic worker\<close>










text \<open>A stored row is flagged live exactly when its status is HAS_LIVE_DATA.\<close>

lemma stored_live_flag:
  assumes "fetchMapbox token res = result"
  shows "has_live_data (storeReading now result) = 1
         \<longleftrightarrow> rowStatus (storeReading now result) = HAS_LIVE_DATA"
  using assms
  by (auto simp: fetchMapbox_def storeReading_def noMatch_def Let_def
           split: if_splits FetchResult.splits option.splits list.splits sum.splits)

lemma map_filter_filter:
  "List.map_filter f (filter P xs) = List.map_filter (\<lambda>x. if P x then f x else None) xs"
  by (induction xs) (auto split: option.splits)

lemma find_filter: "find Q (filter P xs) = find (\<lambda>x. P x \<and> Q x) xs"
  by (induction xs) simp_all

lemma find_conj_None: "find P xs = None \<Longrightarrow> find (\<lambda>x. P x \<and> Q x) xs = None"
  by (induction xs) (auto split: if_splits)

lemma find_conj_Some: "find P xs = Some x \<Longrightarrow> Q x \<Longrightarrow> find (\<lambda>x. P x \<and> Q x) xs = Some x"
  by (induction xs) (auto split: if_splits)

lemma aggregate_nonempty:
  assumes "rows \<noteq> []"
  shows "aggregateReadings sinceParam (Some rows) =
     \<lparr>aggWindow = \<lparr>windowDescription = windowLabel sinceParam, windowSince = sinceParam,
                   windowReadings = length rows,
                   windowReadingsWithLiveData = Some (length (filter isLive rows))\<rparr>,
      aggStatus = (if \<exists>r \<in> set rows. isLive r then LIKELY_OPEN else NO_LIVE_DATA_WINDOW),
      aggAverageSpeedMph = map_option roundToTenth (doubleMean (liveSpeedsOf rows)),
      aggMostRecentLiveSpeedMph =
        (case find (\<lambda>r. isLive r \<and> avg_speed_mph r \<noteq> None) rows of
           None \<Rightarrow> None | Some r \<Rightarrow> avg_speed_mph r),
      aggMostRecentLiveTimestamp =
        map_option rowTimestamp (find (\<lambda>r. isLive r \<and> avg_speed_mph r \<noteq> None) rows)\<rparr>"
proof -
  have flt: "filter (\<lambda>r. has_live_data r = Suc 0) rows = filter isLive rows"
    by (simp add: isLive_def [abs_def])
  have live: "(filter isLive rows \<noteq> []) = (\<exists>r \<in> set rows. isLive r)"
    by (simp add: filter_empty_conv)
  have speeds: "List.map_filter avg_speed_mph (filter isLive rows) = liveSpeedsOf rows"
    by (simp add: map_filter_filter liveSpeedsOf_def isLive_def)
  have recent: "find (\<lambda>r. avg_speed_mph r \<noteq> None) (filter isLive rows)
      = find (\<lambda>r. isLive r \<and> avg_speed_mph r \<noteq> None) rows"
    by (simp add: find_filter del: not_None_eq)
  show ?thesis
    using assms
    by (simp add: aggregateReadings_def Let_def flt live speeds recent doubleMean_def
          roundToTenth_def math_round_def del: not_None_eq split: option.splits)
qed

text \<open>
  C8. Window aggregation over the rows of the window, newest first: the status is
  LIKELY_OPEN exactly when some poll is live, NO_LIVE_DATA exactly when the window is not
  empty and has no live poll, INSUFFICIENT_DATA exactly when it is empty; the average speed
  is the unweighted mean of the speeds recorded by the live polls, computed in double
  precision and rounded to one decimal place (none when no live poll recorded a speed); the
  most recent live speed and timestamp are none when no poll is live, and those of the
  newest live poll when that poll recorded a speed.
\<close>

theorem aggregateReadings_window:
  "(aggStatus (aggregateReadings sinceParam (Some rows)) = LIKELY_OPEN
      \<longleftrightarrow> (\<exists>r \<in> set rows. isLive r))
   \<and> (aggStatus (aggregateReadings sinceParam (Some rows)) = NO_LIVE_DATA_WINDOW
      \<longleftrightarrow> rows \<noteq> [] \<and> \<not> (\<exists>r \<in> set rows. isLive r))
   \<and> (aggStatus (aggregateReadings sinceParam (Some rows)) = INSUFFICIENT_DATA \<longleftrightarrow> rows = [])
   \<and> aggAverageSpeedMph (aggregateReadings sinceParam (Some rows))
       = map_option roundToTenth (doubleMean (liveSpeedsOf rows))
   \<and> (newestLivePoll rows = None \<longrightarrow>
        aggMostRecentLiveSpeedMph (aggregateReadings sinceParam (Some rows)) = None
        \<and> aggMostRecentLiveTimestamp (aggregateReadings sinceParam (Some rows)) = None)
   \<and> (newestLivePoll rows = Some r \<and> avg_speed_mph r \<noteq> None \<longrightarrow>
        aggMostRecentLiveSpeedMph (aggregateReadings sinceParam (Some rows)) = avg_speed_mph r
        \<and> aggMostRecentLiveTimestamp (aggregateReadings sinceParam (Some rows))
            = Some (rowTimestamp r))"
proof (cases "rows = []")
  case True
  then show ?thesis
    by (simp add: aggregateReadings_def liveSpeedsOf_def doubleMean_def newestLivePoll_def)
next
  case False
  have none: "find (\<lambda>r. isLive r \<and> avg_speed_mph r \<noteq> None) rows = None"
    if "newestLivePoll rows = None"
    using that by (simp add: newestLivePoll_def find_conj_None)
  have some: "find (\<lambda>r. isLive r \<and> avg_speed_mph r \<noteq> None) rows = Some r"
    if "newestLivePoll rows = Some r" "avg_speed_mph r \<noteq> None"
    using that by (simp add: newestLivePoll_def find_conj_Some del: not_None_eq)
  show ?thesis
    using False none some by (auto simp: aggregate_nonempty [OF False] simp del: not_None_eq)
qed

text \<open>
  A window whose only live poll recorded 20.04 mph: the mean of the live polls is that
  speed, and the aggregated average is 20.
\<close>

theorem aggregateReadings_mean_counterexample:
  "aggAverageSpeedMph (aggregateReadings None (Some shortWindow)) = Some 20
   \<and> meanOfLivePolls shortWindow = Some (double 20.04)
   \<and> double 20.04 \<noteq> 20"
  by (simp add: aggregateReadings_def shortWindow_def liveRow_def staleRow_def
        meanOfLivePolls_def liveSpeedsOf_def meanOf_def float_eval del: not_None_eq)

lemma exampleWindow_facts:
  "exampleWindow \<noteq> []"
  "liveSpeedsOf exampleWindow = [double 20.2, double 29.9]"
  "newestLivePoll exampleWindow = Some (liveRow ''2024-01-05T12:02:00.000Z'' (Some (double 20.2)))"
  by (simp_all add: liveSpeedsOf_def exampleWindow_def liveRow_def staleRow_def
        newestLivePoll_def isLive_def del: not_None_eq)

lemma example_average:
  "map_option roundToTenth (doubleMean [double 20.2, double 29.9]) = Some 25"
  by (simp add: doubleMean_def roundToTenth_def float_eval)

text \<open>
  The three statuses. In the window of live polls at 20.2 and 29.9 mph the sum is
  50.099999999999994, its half times ten is 250.49999999999997, and the average is 25; the
  most recent live poll is the newest one.
\<close>

theorem aggregateReadings_window_witness:
  "aggStatus (aggregateReadings None (Some exampleWindow)) = LIKELY_OPEN
   \<and> aggAverageSpeedMph (aggregateReadings None (Some exampleWindow)) = Some 25
   \<and> aggMostRecentLiveSpeedMph (aggregateReadings None (Some exampleWindow))
       = Some (double 20.2)
   \<and> aggMostRecentLiveTimestamp (aggregateReadings None (Some exampleWindow))
       = Some ''2024-01-05T12:02:00.000Z''
   \<and> aggStatus (aggregateReadings None (Some [staleRow ''2024-01-05T12:01:00.000Z'']))
       = NO_LIVE_DATA_WINDOW
   \<and> aggStatus (aggregateReadings None (Some [])) = INSUFFICIENT_DATA"
proof -
  have live: "\<exists>r \<in> set exampleWindow. isLive r"
    by (simp add: exampleWindow_def isLive_def liveRow_def)
  have stale: "\<not> isLive (staleRow t)" for t
    by (simp add: isLive_def staleRow_def)
  have speed: "avg_speed_mph (liveRow t v) = v" "rowTimestamp (liveRow t v) = t" for t v
    by (simp_all add: liveRow_def)
  have newest: "newestLivePoll exampleWindow
        = Some (liveRow ''2024-01-05T12:02:00.000Z'' (Some (double 20.2)))
      \<and> avg_speed_mph (liveRow ''2024-01-05T12:02:00.000Z'' (Some (double 20.2))) \<noteq> None"
    by (simp add: exampleWindow_facts speed)
  have average: "map_option roundToTenth (doubleMean (liveSpeedsOf exampleWindow)) = Some 25"
    by (simp only: exampleWindow_facts example_average)
  have first: "aggStatus (aggregateReadings None (Some exampleWindow)) = LIKELY_OPEN
      \<and> aggAverageSpeedMph (aggregateReadings None (Some exampleWindow)) = Some 25
      \<and> aggMostRecentLiveSpeedMph (aggregateReadings None (Some exampleWindow))
          = Some (double 20.2)
      \<and> aggMostRecentLiveTimestamp (aggregateReadings None (Some exampleWindow))
          = Some ''2024-01-05T12:02:00.000Z''"
    using live newest average
      aggregateReadings_window [of None exampleWindow
        "liveRow ''2024-01-05T12:02:00.000Z'' (Some (double 20.2))"]
    by (simp only: speed) simp
  have second: "aggStatus (aggregateReadings None (Some [staleRow ''2024-01-05T12:01:00.000Z'']))
      = NO_LIVE_DATA_WINDOW"
    using aggregateReadings_window [of None "[staleRow ''2024-01-05T12:01:00.000Z'']"]
    by (simp add: stale)
  have third: "aggStatus (aggregateReadings None (Some [])) = INSUFFICIENT_DATA"
    using aggregateReadings_window [of None "[]"] by simp
  show ?thesis using first second third by simp
qed

end
